theory Spec2Isabelle
  imports Main
begin

section \<open>Python values, exceptions and effects\<close>

text \<open>
  The program is \<^verbatim>\<open>src/main.py\<close>: three functions \<^verbatim>\<open>load_data\<close>,
  \<^verbatim>\<open>load_schema\<close>, \<^verbatim>\<open>validate_data\<close> and the orchestrator \<^verbatim>\<open>main\<close>.
  All of them are control flow around calls into third-party libraries (\<^verbatim>\<open>json\<close>,
  \<^verbatim>\<open>yaml\<close>, \<^verbatim>\<open>xml.etree\<close>, \<^verbatim>\<open>jsonschema\<close>, \<^verbatim>\<open>lxml\<close>) and the file system.
  The libraries are not part of the program, so what each call answers is a parameter
  (the record \<open>env\<close> below); the program's own dispatch, its \<^verbatim>\<open>try\<close>/\<^verbatim>\<open>except\<close>
  statements, its logging and printing are modelled in full.
\<close>

datatype element =
  Element (etag: string) (eattrib: "(string \<times> string) list") (etext: string)
    (echildren: "element list")

text \<open>
  What \<^verbatim>\<open>json.load\<close> and \<^verbatim>\<open>yaml.safe_load\<close> build (\<^verbatim>\<open>None\<close>, booleans, integers,
  strings, lists, dictionaries), the root \<^verbatim>\<open>Element\<close> that \<^verbatim>\<open>ET.parse\<close> gives, and
  objects owned by a library (an lxml tree, a compiled \<^verbatim>\<open>XMLSchema\<close>, a bytes
  buffer), which the program only passes on.
\<close>

datatype pyobj =
    PyNone
  | PyBool bool
  | PyInt int
  | PyStr string
  | PyList "pyobj list"
  | PyDict "(string \<times> pyobj) list"
  | PyElement element
  | PyObject string

text \<open>
  The exception classes that the program names or that the libraries raise, with their
  method resolution order. \<open>KeyboardInterrupt\<close> stands for the classes that derive from
  \<^verbatim>\<open>BaseException\<close> but not from \<^verbatim>\<open>Exception\<close>.
\<close>

datatype exn_class =
    BaseException | KeyboardInterrupt | Exception
  | ValueError | JSONDecodeError
  | OSError | FileNotFoundError | PermissionError
  | NameError | AttributeError | TypeError | ImportError
  | SyntaxError | ParseError | YAMLError
  | ValidationError | SchemaError
  | LxmlError | XMLSchemaError | XMLSchemaParseError | XMLSyntaxError | DocumentInvalid

fun mro :: "exn_class \<Rightarrow> exn_class list" where
  "mro BaseException = [BaseException]"
| "mro KeyboardInterrupt = [KeyboardInterrupt, BaseException]"
| "mro Exception = [Exception, BaseException]"
| "mro ValueError = [ValueError, Exception, BaseException]"
| "mro JSONDecodeError = [JSONDecodeError, ValueError, Exception, BaseException]"
| "mro OSError = [OSError, Exception, BaseException]"
| "mro FileNotFoundError = [FileNotFoundError, OSError, Exception, BaseException]"
| "mro PermissionError = [PermissionError, OSError, Exception, BaseException]"
| "mro NameError = [NameError, Exception, BaseException]"
| "mro AttributeError = [AttributeError, Exception, BaseException]"
| "mro TypeError = [TypeError, Exception, BaseException]"
| "mro ImportError = [ImportError, Exception, BaseException]"
| "mro SyntaxError = [SyntaxError, Exception, BaseException]"
| "mro ParseError = [ParseError, SyntaxError, Exception, BaseException]"
| "mro YAMLError = [YAMLError, Exception, BaseException]"
| "mro ValidationError = [ValidationError, Exception, BaseException]"
| "mro SchemaError = [SchemaError, Exception, BaseException]"
| "mro LxmlError = [LxmlError, Exception, BaseException]"
| "mro XMLSchemaError = [XMLSchemaError, LxmlError, Exception, BaseException]"
| "mro XMLSchemaParseError =
     [XMLSchemaParseError, XMLSchemaError, LxmlError, Exception, BaseException]"
| "mro XMLSyntaxError = [XMLSyntaxError, LxmlError, SyntaxError, Exception, BaseException]"
| "mro DocumentInvalid = [DocumentInvalid, LxmlError, Exception, BaseException]"

text \<open>An exception object: its class and the text \<^verbatim>\<open>str(e)\<close> that an f-string prints.\<close>

datatype exn = Exn (cls: exn_class) (str: string)

definition isinstance :: "exn \<Rightarrow> exn_class \<Rightarrow> bool" where
  "isinstance e c = (c \<in> set (mro (cls e)))"

text \<open>
  The effects the program has on the world, in the order they happen: calls into
  a library or the file system, records handed to \<^verbatim>\<open>logging\<close>
  (\<open>EXCEPTION\<close> is \<^verbatim>\<open>logging.exception\<close>: level ERROR with the traceback), and
  lines printed.
\<close>

datatype libcall =
    Open string
  | JsonLoad string
  | YamlSafeLoad string
  | ETParse string
  | JsonschemaValidate pyobj pyobj
  | ImportLxmlEtree
  | LxmlParse pyobj
  | LxmlXMLSchema pyobj
  | ETToString pyobj
  | LxmlFromString pyobj
  | AssertValid pyobj pyobj
  | PathIsFile string
  | OsAccess string

datatype loglevel = WARNING | ERROR | EXCEPTION

datatype event = Call libcall | Log loglevel string | Print string

text \<open>
  What the libraries and the file system answer: \<open>Inl e\<close> when the call raises \<open>e\<close>,
  \<open>Inr v\<close> when it returns \<open>v\<close>. A file object is modelled by its content.
\<close>

record env =
  open_file :: "string \<Rightarrow> exn + string"
  json_load :: "string \<Rightarrow> exn + pyobj"
  yaml_safe_load :: "string \<Rightarrow> exn + pyobj"
  ET_parse :: "string \<Rightarrow> exn + element"
  jsonschema_validate :: "pyobj \<Rightarrow> pyobj \<Rightarrow> exn + unit"
  import_lxml_etree :: "exn + unit"
  lxml_parse :: "pyobj \<Rightarrow> exn + pyobj"
  lxml_XMLSchema :: "pyobj \<Rightarrow> exn + pyobj"
  ET_tostring :: "pyobj \<Rightarrow> exn + pyobj"
  lxml_fromstring :: "pyobj \<Rightarrow> exn + pyobj"
  assertValid :: "pyobj \<Rightarrow> pyobj \<Rightarrow> exn + unit"
  path_is_file :: "string \<Rightarrow> exn + bool"
  os_access :: "string \<Rightarrow> exn + bool"

text \<open>
  A computation either returns a value or raises, and leaves the events it caused.
\<close>

type_synonym 'a comp = "(exn + 'a) \<times> event list"

definition ret :: "'a \<Rightarrow> 'a comp" where
  "ret v = (Inr v, [])"

definition raise :: "exn \<Rightarrow> 'a comp" where
  "raise e = (Inl e, [])"

definition and_then :: "'a comp \<Rightarrow> ('a \<Rightarrow> 'b comp) \<Rightarrow> 'b comp" where
  "and_then m f =
     (case m of
        (Inl e, tr) \<Rightarrow> (Inl e, tr)
      | (Inr v, tr) \<Rightarrow> (case f v of (r, tr') \<Rightarrow> (r, tr @ tr')))"

definition call :: "libcall \<Rightarrow> exn + 'a \<Rightarrow> 'a comp" where
  "call c r = (r, [Call c])"

definition logging :: "loglevel \<Rightarrow> string \<Rightarrow> unit comp" where
  "logging l s = (Inr (), [Log l s])"

definition print :: "string \<Rightarrow> unit comp" where
  "print s = (Inr (), [Print s])"

section \<open>Names and \<^verbatim>\<open>except\<close> clauses\<close>

text \<open>
  The expression after \<^verbatim>\<open>except\<close> is evaluated when an exception reaches the clause.
  It is a dotted name: the first name is looked up in the local, the module and the
  builtin namespace, the others are attributes. A name bound nowhere raises
  \<^verbatim>\<open>NameError\<close>.
\<close>

datatype pyname = ClassObj exn_class | ModuleObj "(string \<times> pyname) list" | OtherObj

type_synonym scope = "(string \<times> pyname) list"

datatype expr = Dotted string "string list"

fun getattrs :: "pyname \<Rightarrow> string list \<Rightarrow> exn + pyname" where
  "getattrs v [] = Inr v"
| "getattrs (ModuleObj ns) (a # as) =
     (case map_of ns a of
        None \<Rightarrow> Inl (Exn AttributeError (''module has no attribute '' @ a))
      | Some v \<Rightarrow> getattrs v as)"
| "getattrs v (a # as) = Inl (Exn AttributeError (''object has no attribute '' @ a))"

fun eval_expr :: "scope \<Rightarrow> expr \<Rightarrow> exn + pyname" where
  "eval_expr sc (Dotted n as) =
     (case map_of sc n of
        None \<Rightarrow> Inl (Exn NameError (''name '' @ [CHR 0x27] @ n @ [CHR 0x27] @ '' is not defined''))
      | Some v \<Rightarrow> getattrs v as)"

text \<open>
  The clauses of a \<^verbatim>\<open>try\<close> statement are tried in order. When the expression of a
  clause raises, the search stops and the new exception leaves the whole statement;
  when it is not an exception class, Python raises \<^verbatim>\<open>TypeError\<close>.
\<close>

fun handle :: "scope \<Rightarrow> exn \<Rightarrow> (expr \<times> (exn \<Rightarrow> 'a comp)) list \<Rightarrow> 'a comp" where
  "handle sc e [] = raise e"
| "handle sc e ((x, h) # hs) =
     (case eval_expr sc x of
        Inl e' \<Rightarrow> raise e'
      | Inr (ClassObj c) \<Rightarrow> if isinstance e c then h e else handle sc e hs
      | Inr _ \<Rightarrow>
          raise (Exn TypeError
            ''catching classes that do not inherit from BaseException is not allowed''))"

definition try_except :: "'a comp \<Rightarrow> scope \<Rightarrow> (expr \<times> (exn \<Rightarrow> 'a comp)) list \<Rightarrow> 'a comp" where
  "try_except body sc hs =
     (case body of
        (Inr v, tr) \<Rightarrow> (Inr v, tr)
      | (Inl e, tr) \<Rightarrow> (case handle sc e hs of (r, tr') \<Rightarrow> (r, tr @ tr')))"

text \<open>The builtin namespace, as far as the program reaches into it.\<close>

definition builtins :: scope where
  "builtins =
     [(''BaseException'', ClassObj BaseException),
      (''KeyboardInterrupt'', ClassObj KeyboardInterrupt),
      (''Exception'', ClassObj Exception),
      (''ValueError'', ClassObj ValueError),
      (''OSError'', ClassObj OSError),
      (''FileNotFoundError'', ClassObj FileNotFoundError),
      (''PermissionError'', ClassObj PermissionError),
      (''NameError'', ClassObj NameError),
      (''AttributeError'', ClassObj AttributeError),
      (''TypeError'', ClassObj TypeError),
      (''ImportError'', ClassObj ImportError),
      (''SyntaxError'', ClassObj SyntaxError),
      (''open'', OtherObj),
      (''print'', OtherObj)]"

text \<open>
  The module namespace of \<^verbatim>\<open>main.py\<close>: its import statements (lines 1 to 9) and its
  function definitions. No statement of the module binds the name \<^verbatim>\<open>lxml\<close>.
\<close>

definition module_globals :: scope where
  "module_globals =
     [(''argparse'', ModuleObj []),
      (''json'', ModuleObj [(''JSONDecodeError'', ClassObj JSONDecodeError)]),
      (''ET'', ModuleObj [(''ParseError'', ClassObj ParseError)]),
      (''yaml'', ModuleObj [(''YAMLError'', ClassObj YAMLError)]),
      (''logging'', ModuleObj []),
      (''os'', ModuleObj []),
      (''jsonschema'',
         ModuleObj
          [(''exceptions'',
              ModuleObj
               [(''ValidationError'', ClassObj ValidationError),
                (''SchemaError'', ClassObj SchemaError)]),
           (''validate'', OtherObj)]),
      (''validate'', OtherObj),
      (''Path'', OtherObj),
      (''setup_argparse'', OtherObj),
      (''load_data'', OtherObj),
      (''load_schema'', OtherObj),
      (''validate_data'', OtherObj),
      (''is_valid_file_path'', OtherObj),
      (''main'', OtherObj)]"

text \<open>The module object that \<^verbatim>\<open>import lxml.etree as lxml_ET\<close> binds to \<^verbatim>\<open>lxml_ET\<close>.\<close>

definition lxml_etree_module :: pyname where
  "lxml_etree_module =
     ModuleObj
      [(''LxmlError'', ClassObj LxmlError),
       (''XMLSchemaError'', ClassObj XMLSchemaError),
       (''XMLSchemaParseError'', ClassObj XMLSchemaParseError),
       (''XMLSyntaxError'', ClassObj XMLSyntaxError),
       (''DocumentInvalid'', ClassObj DocumentInvalid),
       (''parse'', OtherObj),
       (''XMLSchema'', OtherObj),
       (''fromstring'', OtherObj)]"

text \<open>Name lookup inside a function: its local names, then the module, then the builtins.\<close>

definition function_scope :: "scope \<Rightarrow> scope" where
  "function_scope locals = locals @ module_globals @ builtins"

section \<open>The loaders\<close>

text \<open>
  \<^verbatim>\<open>load_data\<close> (lines 29 to 66): the file is opened first, then the format picks the
  parser. Each of the three handlers logs and re-raises.
\<close>

definition load_data :: "env \<Rightarrow> string \<Rightarrow> string \<Rightarrow> pyobj comp" where
  "load_data E file_path file_type =
     try_except
       (and_then (call (Open file_path) (open_file E file_path)) (\<lambda>f.
          if file_type = ''json'' then call (JsonLoad f) (json_load E f)
          else if file_type = ''yaml'' then call (YamlSafeLoad f) (yaml_safe_load E f)
          else if file_type = ''xml'' then
            and_then (call (ETParse f) (ET_parse E f)) (\<lambda>root. ret (PyElement root))
          else raise (Exn ValueError ''Unsupported file type.'')))
       (function_scope [(''file_path'', OtherObj), (''file_type'', OtherObj)])
       [(Dotted ''FileNotFoundError'' [], \<lambda>e.
           and_then (logging ERROR (''File not found: '' @ file_path)) (\<lambda>_. raise e)),
        (Dotted ''ValueError'' [], \<lambda>e.
           and_then (logging ERROR (''Error loading data: '' @ str e)) (\<lambda>_. raise e)),
        (Dotted ''Exception'' [], \<lambda>e.
           and_then (logging EXCEPTION (''An unexpected error occurred: '' @ str e))
             (\<lambda>_. raise e))]"

text \<open>
  \<^verbatim>\<open>load_schema\<close> (lines 69 to 105): the same shape; for \<^verbatim>\<open>xml\<close> the opened file is
  not read and the path itself is the result.
\<close>

definition load_schema :: "env \<Rightarrow> string \<Rightarrow> string \<Rightarrow> pyobj comp" where
  "load_schema E schema_path file_type =
     try_except
       (and_then (call (Open schema_path) (open_file E schema_path)) (\<lambda>f.
          if file_type = ''json'' then call (JsonLoad f) (json_load E f)
          else if file_type = ''yaml'' then call (YamlSafeLoad f) (yaml_safe_load E f)
          else if file_type = ''xml'' then ret (PyStr schema_path)
          else raise (Exn ValueError ''Unsupported schema file type.'')))
       (function_scope [(''schema_path'', OtherObj), (''file_type'', OtherObj)])
       [(Dotted ''FileNotFoundError'' [], \<lambda>e.
           and_then (logging ERROR (''Schema file not found: '' @ schema_path)) (\<lambda>_. raise e)),
        (Dotted ''ValueError'' [], \<lambda>e.
           and_then (logging ERROR (''Error loading schema: '' @ str e)) (\<lambda>_. raise e)),
        (Dotted ''Exception'' [], \<lambda>e.
           and_then (logging EXCEPTION (''An unexpected error occurred: '' @ str e))
             (\<lambda>_. raise e))]"

section \<open>The validator\<close>

text \<open>
  The body of the inner \<^verbatim>\<open>try\<close> of the XML branch (lines 137 to 144): import lxml,
  parse and compile the schema file, serialise the element tree, parse it again with
  lxml, assert validity, return \<^verbatim>\<open>True\<close>.
\<close>

definition xml_body :: "env \<Rightarrow> pyobj \<Rightarrow> pyobj \<Rightarrow> bool comp" where
  "xml_body E data schema =
     and_then (call ImportLxmlEtree (import_lxml_etree E)) (\<lambda>_.
     and_then (call (LxmlParse schema) (lxml_parse E schema)) (\<lambda>xmlschema_doc.
     and_then (call (LxmlXMLSchema xmlschema_doc) (lxml_XMLSchema E xmlschema_doc)) (\<lambda>xmlschema.
     and_then (call (ETToString data) (ET_tostring E data)) (\<lambda>xml_string.
     and_then (call (LxmlFromString xml_string) (lxml_fromstring E xml_string)) (\<lambda>xml_doc.
     and_then (call (AssertValid xmlschema xml_doc) (assertValid E xmlschema xml_doc)) (\<lambda>_.
     ret True))))))"

text \<open>
  The local names of \<^verbatim>\<open>validate_data\<close> when a handler is reached: the parameters
  and, in the XML branch, \<^verbatim>\<open>lxml_ET\<close> when the import went through. (The other locals
  of the XML block are bound to values that are no namespaces; no handler names them.)
\<close>

definition validate_params :: scope where
  "validate_params = [(''data'', OtherObj), (''schema'', OtherObj), (''file_type'', OtherObj)]"

definition xml_locals :: "env \<Rightarrow> scope" where
  "xml_locals E =
     (case import_lxml_etree E of
        Inl _ \<Rightarrow> []
      | Inr _ \<Rightarrow> [(''lxml_ET'', lxml_etree_module)])
     @ validate_params"

definition validate_locals :: "env \<Rightarrow> string \<Rightarrow> scope" where
  "validate_locals E file_type =
     (if file_type = ''xml'' then xml_locals E else validate_params)"

text \<open>The inner \<^verbatim>\<open>try\<close> statement of the XML branch (lines 134 to 154).\<close>

definition xml_try :: "env \<Rightarrow> pyobj \<Rightarrow> pyobj \<Rightarrow> bool comp" where
  "xml_try E data schema =
     try_except (xml_body E data schema) (function_scope (xml_locals E))
       [(Dotted ''lxml'' [''etree'', ''XMLSchemaError''], \<lambda>e.
           and_then (logging ERROR (''XML Schema validation error: '' @ str e)) (\<lambda>_. ret False)),
        (Dotted ''lxml'' [''etree'', ''XMLSyntaxError''], \<lambda>e.
           and_then (logging ERROR (''XML Syntax Error: '' @ str e)) (\<lambda>_. ret False)),
        (Dotted ''Exception'' [], \<lambda>e.
           and_then (logging EXCEPTION (''An unexpected error occurred: '' @ str e))
             (\<lambda>_. ret False))]"

text \<open>\<^verbatim>\<open>validate_data\<close> (lines 108 to 168).\<close>

definition validate_data :: "env \<Rightarrow> pyobj \<Rightarrow> pyobj \<Rightarrow> string \<Rightarrow> bool comp" where
  "validate_data E data schema file_type =
     try_except
       (if file_type = ''json'' then
          and_then (call (JsonschemaValidate data schema) (jsonschema_validate E data schema))
            (\<lambda>_. ret True)
        else if file_type = ''yaml'' then
          and_then (call (JsonschemaValidate data schema) (jsonschema_validate E data schema))
            (\<lambda>_. ret True)
        else if file_type = ''xml'' then xml_try E data schema
        else raise (Exn ValueError ''Unsupported file type.''))
       (function_scope (validate_locals E file_type))
       [(Dotted ''jsonschema'' [''exceptions'', ''ValidationError''], \<lambda>e.
           and_then (logging ERROR (''Validation error: '' @ str e)) (\<lambda>_. ret False)),
        (Dotted ''jsonschema'' [''exceptions'', ''SchemaError''], \<lambda>e.
           and_then (logging ERROR (''Schema error: '' @ str e)) (\<lambda>_. ret False)),
        (Dotted ''ValueError'' [], \<lambda>e.
           and_then (logging ERROR (''Error during validation: '' @ str e)) (\<lambda>_. ret False)),
        (Dotted ''Exception'' [], \<lambda>e.
           and_then (logging EXCEPTION (''An unexpected error occurred: '' @ str e))
             (\<lambda>_. ret False))]"

section \<open>The orchestrator\<close>

text \<open>\<^verbatim>\<open>is_valid_file_path\<close> (lines 171 to 193).\<close>

definition is_valid_file_path :: "env \<Rightarrow> string \<Rightarrow> bool comp" where
  "is_valid_file_path E file_path =
     try_except
       (and_then (call (PathIsFile file_path) (path_is_file E file_path)) (\<lambda>is_file.
          if \<not> is_file then
            and_then (logging WARNING (''File does not exist or is not a file: '' @ file_path))
              (\<lambda>_. ret False)
          else
            and_then (call (OsAccess file_path) (os_access E file_path)) (\<lambda>readable.
              if \<not> readable then
                and_then (logging WARNING (''File is not readable: '' @ file_path))
                  (\<lambda>_. ret False)
              else ret True)))
       (function_scope [(''file_path'', OtherObj)])
       [(Dotted ''Exception'' [], \<lambda>e.
           and_then (logging ERROR (''Error checking file path: '' @ str e)) (\<lambda>_. ret False))]"

text \<open>
  The \<^verbatim>\<open>try\<close> statement of \<^verbatim>\<open>main\<close> (lines 211 to 224): load the data, load the
  schema, validate when neither is \<^verbatim>\<open>None\<close>, print the verdict.
\<close>

definition main_try :: "env \<Rightarrow> string \<Rightarrow> string \<Rightarrow> string \<Rightarrow> unit comp" where
  "main_try E file_path schema_path file_type =
     try_except
       (and_then (load_data E file_path file_type) (\<lambda>data.
        and_then (load_schema E schema_path file_type) (\<lambda>schema.
          if data \<noteq> PyNone \<and> schema \<noteq> PyNone then
            and_then (validate_data E data schema file_type) (\<lambda>valid.
              if valid then print ''Data validation successful.''
              else print ''Data validation failed.'')
          else print ''Failed to load data or schema.'')))
       (function_scope [(''parser'', OtherObj), (''args'', OtherObj)])
       [(Dotted ''Exception'' [], \<lambda>e. print (''An error occurred: '' @ str e))]"

text \<open>
  \<^verbatim>\<open>main\<close> (lines 196 to 224), from the parsed arguments on: \<^verbatim>\<open>args.file_path\<close>,
  \<^verbatim>\<open>args.schema_path\<close> and \<^verbatim>\<open>args.file_type\<close>.
\<close>

definition main :: "env \<Rightarrow> string \<Rightarrow> string \<Rightarrow> string \<Rightarrow> unit comp" where
  "main E file_path schema_path file_type =
     and_then (is_valid_file_path E file_path) (\<lambda>ok1.
       if \<not> ok1 then print ''Invalid file path. Exiting.''
       else
         and_then (is_valid_file_path E schema_path) (\<lambda>ok2.
           if \<not> ok2 then print ''Invalid schema path. Exiting.''
           else main_try E file_path schema_path file_type))"

section \<open>Observing a run\<close>

text \<open>What the caller of a computation gets back, and the events the computation left.\<close>

definition result :: "'a comp \<Rightarrow> exn + 'a" where
  "result m = fst m"

definition events :: "'a comp \<Rightarrow> event list" where
  "events m = snd m"

text \<open>The calls into the libraries and the file system during a run.\<close>

fun is_call :: "event \<Rightarrow> bool" where
  "is_call (Call c) = True"
| "is_call _ = False"

definition calls :: "'a comp \<Rightarrow> event list" where
  "calls m = filter is_call (events m)"

text \<open>The records handed to \<^verbatim>\<open>logging\<close> during a run.\<close>

fun is_log :: "event \<Rightarrow> bool" where
  "is_log (Log l s) = True"
| "is_log _ = False"

definition logged :: "'a comp \<Rightarrow> event list" where
  "logged m = filter is_log (events m)"

text \<open>The lines printed during a run.\<close>

fun is_print :: "event \<Rightarrow> bool" where
  "is_print (Print s) = True"
| "is_print _ = False"

definition printed :: "'a comp \<Rightarrow> event list" where
  "printed m = filter is_print (events m)"

text \<open>The calls that parse file content, and the calls that belong to validation.\<close>

fun is_parse_call :: "event \<Rightarrow> bool" where
  "is_parse_call (Call (JsonLoad f)) = True"
| "is_parse_call (Call (YamlSafeLoad f)) = True"
| "is_parse_call (Call (ETParse f)) = True"
| "is_parse_call (Call (LxmlParse x)) = True"
| "is_parse_call (Call (LxmlFromString x)) = True"
| "is_parse_call _ = False"

definition parse_calls :: "'a comp \<Rightarrow> event list" where
  "parse_calls m = filter is_parse_call (events m)"

fun is_validation_call :: "event \<Rightarrow> bool" where
  "is_validation_call (Call (JsonschemaValidate d s)) = True"
| "is_validation_call (Call ImportLxmlEtree) = True"
| "is_validation_call (Call (LxmlParse x)) = True"
| "is_validation_call (Call (LxmlXMLSchema x)) = True"
| "is_validation_call (Call (ETToString x)) = True"
| "is_validation_call (Call (LxmlFromString x)) = True"
| "is_validation_call (Call (AssertValid x y)) = True"
| "is_validation_call _ = False"

definition validation_calls :: "'a comp \<Rightarrow> event list" where
  "validation_calls m = filter is_validation_call (events m)"

section \<open>A concrete world\<close>

text \<open>
  One instance of the parameter \<open>env\<close>, used to run the program on concrete inputs:
  a handful of files and what the libraries answer on them.
\<close>

definition dq :: string where
  "dq = [CHR 0x22]"

definition john_json :: string where
  "john_json = ''{'' @ dq @ ''name'' @ dq @ '': '' @ dq @ ''John Doe'' @ dq @ '', ''
     @ dq @ ''age'' @ dq @ '': 30}''"

definition schema_json :: string where
  "schema_json = ''{'' @ dq @ ''type'' @ dq @ '': '' @ dq @ ''object'' @ dq @ '', ''
     @ dq @ ''required'' @ dq @ '': ['' @ dq @ ''name'' @ dq @ '', '' @ dq @ ''age'' @ dq @ '']}''"

definition broken_json :: string where
  "broken_json = ''{'' @ dq @ ''name'' @ dq @ '':''"

definition john :: pyobj where
  "john = PyDict [(''name'', PyStr ''John Doe''), (''age'', PyInt 30)]"

definition john_no_age :: pyobj where
  "john_no_age = PyDict [(''name'', PyStr ''John Doe'')]"

definition person_schema :: pyobj where
  "person_schema =
     PyDict [(''type'', PyStr ''object''), (''required'', PyList [PyStr ''name'', PyStr ''age''])]"

definition bad_schema :: pyobj where
  "bad_schema = PyDict [(''type'', PyStr ''nonexistent-type'')]"

definition item_xml :: string where
  "item_xml = ''<root><item>1</item></root>''"

definition item_root :: element where
  "item_root = Element ''root'' [] [] [Element ''item'' [] ''1'' []]"

definition abc_root :: element where
  "abc_root = Element ''root'' [] [] [Element ''item'' [] ''abc'' []]"

definition files :: "string \<Rightarrow> exn + string" where
  "files p =
     (if p = ''data.json'' then Inr john_json
      else if p = ''schema.json'' then Inr schema_json
      else if p = ''broken.json'' then Inr broken_json
      else if p = ''null.json'' then Inr ''null''
      else if p = ''empty.yaml'' then Inr []
      else if p = ''data.xml'' then Inr item_xml
      else if p = ''schema.xsd'' then Inr ''<xs:schema/>''
      else Inl (Exn FileNotFoundError (''[Errno 2] No such file or directory: '' @ p)))"

definition world_json_load :: "string \<Rightarrow> exn + pyobj" where
  "world_json_load f =
     (if f = ''null'' then Inr PyNone
      else if f = john_json then Inr john
      else if f = schema_json then Inr person_schema
      else Inl (Exn JSONDecodeError ''Expecting value: line 1 column 9 (char 8)''))"

definition world_yaml_safe_load :: "string \<Rightarrow> exn + pyobj" where
  "world_yaml_safe_load f = (if f = [] then Inr PyNone else world_json_load f)"

definition world_validate :: "pyobj \<Rightarrow> pyobj \<Rightarrow> exn + unit" where
  "world_validate d s =
     (if s = bad_schema then
        Inl (Exn SchemaError ''nonexistent-type is not valid under any of the given schemas'')
      else if s = person_schema \<and> d = john_no_age then
        Inl (Exn ValidationError ''age is a required property'')
      else Inr ())"

definition world_assertValid :: "pyobj \<Rightarrow> pyobj \<Rightarrow> exn + unit" where
  "world_assertValid xmlschema xml_doc =
     (if xml_doc = PyObject ''lxml:abc'' then
        Inl (Exn DocumentInvalid ''Element item: abc is not a valid value of the atomic type xs:integer.'')
      else Inr ())"

definition world :: env where
  "world =
     \<lparr> open_file = files,
       json_load = world_json_load,
       yaml_safe_load = world_yaml_safe_load,
       ET_parse = (\<lambda>f. if f = item_xml then Inr item_root
                        else Inl (Exn ParseError ''syntax error: line 1, column 0'')),
       jsonschema_validate = world_validate,
       import_lxml_etree = Inr (),
       lxml_parse = (\<lambda>x. if x = PyStr ''schema.xsd'' then Inr (PyObject ''lxml:xsd'')
                          else Inl (Exn XMLSyntaxError ''Document is empty, line 1, column 1'')),
       lxml_XMLSchema = (\<lambda>x. Inr (PyObject ''XMLSchema'')),
       ET_tostring = (\<lambda>x. if x = PyElement item_root then Inr (PyObject ''bytes:1'')
                           else if x = PyElement abc_root then Inr (PyObject ''bytes:abc'')
                           else Inl (Exn AttributeError ''object has no attribute iter'')),
       lxml_fromstring = (\<lambda>x. if x = PyObject ''bytes:abc'' then Inr (PyObject ''lxml:abc'')
                               else Inr (PyObject ''lxml:1'')),
       assertValid = world_assertValid,
       path_is_file = (\<lambda>p. case files p of Inl e \<Rightarrow> Inr False | Inr f \<Rightarrow> Inr True),
       os_access = (\<lambda>p. Inr True) \<rparr>"

text \<open>The same world with a validator library that fails with an unanticipated fault.\<close>

definition world_unexpected :: "string \<Rightarrow> env" where
  "world_unexpected m = world \<lparr> jsonschema_validate := (\<lambda>d s. Inl (Exn TypeError m)) \<rparr>"

text \<open>The same world with an interrupt arriving while the validator library runs.\<close>

definition world_interrupted :: env where
  "world_interrupted =
     world \<lparr> jsonschema_validate := (\<lambda>d s. Inl (Exn KeyboardInterrupt [])) \<rparr>"

section \<open>Premises about documents\<close>



section \<open>Structural schema validation\<close>













section \<open>Name lookup in the scopes of the program\<close>

lemma scope_lxml_unbound: "map_of (function_scope (xml_locals E)) ''lxml'' = None"
  by (simp add: function_scope_def xml_locals_def validate_params_def module_globals_def
      builtins_def split: sum.splits)

lemma eval_lxml:
  "eval_expr (function_scope (xml_locals E)) (Dotted ''lxml'' as) =
     Inl (Exn NameError ''name 'lxml' is not defined'')"
  by (simp add: scope_lxml_unbound)

lemma eval_ValidationError:
  "eval_expr (function_scope (validate_locals E ft))
     (Dotted ''jsonschema'' [''exceptions'', ''ValidationError'']) = Inr (ClassObj ValidationError)"
  by (simp add: function_scope_def validate_locals_def xml_locals_def validate_params_def
      module_globals_def builtins_def split: sum.splits)

lemma eval_SchemaError:
  "eval_expr (function_scope (validate_locals E ft))
     (Dotted ''jsonschema'' [''exceptions'', ''SchemaError'']) = Inr (ClassObj SchemaError)"
  by (simp add: function_scope_def validate_locals_def xml_locals_def validate_params_def
      module_globals_def builtins_def split: sum.splits)

lemma eval_ValueError_validate:
  "eval_expr (function_scope (validate_locals E ft)) (Dotted ''ValueError'' []) =
     Inr (ClassObj ValueError)"
  by (simp add: function_scope_def validate_locals_def xml_locals_def validate_params_def
      module_globals_def builtins_def split: sum.splits)

lemma eval_Exception_validate:
  "eval_expr (function_scope (validate_locals E ft)) (Dotted ''Exception'' []) =
     Inr (ClassObj Exception)"
  by (simp add: function_scope_def validate_locals_def xml_locals_def validate_params_def
      module_globals_def builtins_def split: sum.splits)

lemma eval_loader_scope:
  "eval_expr (function_scope [(p, OtherObj), (''file_type'', OtherObj)])
     (Dotted ''FileNotFoundError'' []) =
     (if p = ''FileNotFoundError'' then Inr OtherObj else Inr (ClassObj FileNotFoundError))"
  "eval_expr (function_scope [(p, OtherObj), (''file_type'', OtherObj)])
     (Dotted ''ValueError'' []) =
     (if p = ''ValueError'' then Inr OtherObj else Inr (ClassObj ValueError))"
  "eval_expr (function_scope [(p, OtherObj), (''file_type'', OtherObj)])
     (Dotted ''Exception'' []) =
     (if p = ''Exception'' then Inr OtherObj else Inr (ClassObj Exception))"
  by (simp_all add: function_scope_def module_globals_def builtins_def)

lemma eval_Exception_local:
  "eval_expr (function_scope [(''file_path'', OtherObj)]) (Dotted ''Exception'' []) =
     Inr (ClassObj Exception)"
  "eval_expr (function_scope [(''parser'', OtherObj), (''args'', OtherObj)])
     (Dotted ''Exception'' []) = Inr (ClassObj Exception)"
  by (simp_all add: function_scope_def module_globals_def builtins_def)

declare eval_expr.simps [simp del]

lemmas scope_evals =
  eval_lxml eval_ValidationError eval_SchemaError eval_ValueError_validate
  eval_Exception_validate eval_loader_scope eval_Exception_local

lemmas comp_defs = try_except_def and_then_def call_def ret_def raise_def logging_def print_def

section \<open>The loaders re-raise\<close>

lemma load_data_result:
  "fst (load_data E p ft) =
     (case open_file E p of
        Inl e \<Rightarrow> Inl e
      | Inr f \<Rightarrow>
          if ft = ''json'' then json_load E f
          else if ft = ''yaml'' then yaml_safe_load E f
          else if ft = ''xml'' then
            (case ET_parse E f of Inl e \<Rightarrow> Inl e | Inr r \<Rightarrow> Inr (PyElement r))
          else Inl (Exn ValueError ''Unsupported file type.''))"
  by (simp add: load_data_def comp_defs scope_evals split: sum.splits prod.splits)

lemma load_schema_result:
  "fst (load_schema E p ft) =
     (case open_file E p of
        Inl e \<Rightarrow> Inl e
      | Inr f \<Rightarrow>
          if ft = ''json'' then json_load E f
          else if ft = ''yaml'' then yaml_safe_load E f
          else if ft = ''xml'' then Inr (PyStr p)
          else Inl (Exn ValueError ''Unsupported schema file type.''))"
  by (simp add: load_schema_def comp_defs scope_evals split: sum.splits prod.splits)

lemma load_data_no_validation:
  "filter is_validation_call (snd (load_data E p ft)) = []"
  by (simp add: load_data_def comp_defs scope_evals split: sum.splits prod.splits)

lemma load_schema_no_validation:
  "filter is_validation_call (snd (load_schema E p ft)) = []"
  by (simp add: load_schema_def comp_defs scope_evals split: sum.splits prod.splits)

lemma load_data_no_print:
  "filter is_print (snd (load_data E p ft)) = []"
  by (simp add: load_data_def comp_defs scope_evals split: sum.splits prod.splits)

lemma load_schema_no_print:
  "filter is_print (snd (load_schema E p ft)) = []"
  by (simp add: load_schema_def comp_defs scope_evals split: sum.splits prod.splits)

section \<open>The handlers of the validator\<close>

text \<open>
  What the four outer clauses of \<^verbatim>\<open>validate_data\<close> (lines 157 to 168) make of an
  exception that reaches them.
\<close>

lemma validate_json_yaml:
  "ft = ''json'' \<or> ft = ''yaml'' \<Longrightarrow>
   validate_data E d s ft =
     (case jsonschema_validate E d s of
        Inr u \<Rightarrow> (Inr True, [Call (JsonschemaValidate d s)])
      | Inl e \<Rightarrow>
          if isinstance e ValidationError then
            (Inr False, [Call (JsonschemaValidate d s), Log ERROR (''Validation error: '' @ str e)])
          else if isinstance e SchemaError then
            (Inr False, [Call (JsonschemaValidate d s), Log ERROR (''Schema error: '' @ str e)])
          else if isinstance e ValueError then
            (Inr False,
             [Call (JsonschemaValidate d s), Log ERROR (''Error during validation: '' @ str e)])
          else if isinstance e Exception then
            (Inr False,
             [Call (JsonschemaValidate d s),
              Log EXCEPTION (''An unexpected error occurred: '' @ str e)])
          else (Inl e, [Call (JsonschemaValidate d s)]))"
  by (auto simp add: validate_data_def comp_defs scope_evals split: sum.splits)

lemma isinstance_Exn:
  "isinstance (Exn c m) c' = (c' \<in> set (mro c))"
  by (simp add: isinstance_def)

lemma xml_try_raises:
  "fst (xml_body E d s) = Inl e \<Longrightarrow>
   xml_try E d s = (Inl (Exn NameError ''name 'lxml' is not defined''), snd (xml_body E d s))"
  by (cases "xml_body E d s") (simp add: xml_try_def try_except_def scope_evals raise_def)

lemma xml_try_returns:
  "fst (xml_body E d s) = Inr b \<Longrightarrow> xml_try E d s = xml_body E d s"
  by (cases "xml_body E d s") (simp add: xml_try_def try_except_def)

lemma validate_xml_raises:
  "fst (xml_body E d s) = Inl e \<Longrightarrow>
   validate_data E d s ''xml'' =
     (Inr False,
      snd (xml_body E d s) @
        [Log EXCEPTION ''An unexpected error occurred: name 'lxml' is not defined''])"
  by (simp add: validate_data_def xml_try_raises comp_defs scope_evals isinstance_Exn)

lemma validate_xml_returns:
  "fst (xml_body E d s) = Inr b \<Longrightarrow> validate_data E d s ''xml'' = xml_body E d s"
  by (cases "xml_body E d s") (simp add: validate_data_def xml_try_returns try_except_def)

lemma xml_body_returns_True:
  "fst (xml_body E d s) = Inr b \<Longrightarrow> b"
  by (auto simp add: xml_body_def comp_defs split: sum.splits prod.splits)

lemma validate_unsupported:
  "ft \<noteq> ''json'' \<Longrightarrow> ft \<noteq> ''yaml'' \<Longrightarrow> ft \<noteq> ''xml'' \<Longrightarrow>
   validate_data E d s ft =
     (Inr False, [Log ERROR ''Error during validation: Unsupported file type.''])"
  by (simp add: validate_data_def comp_defs scope_evals isinstance_Exn)

section \<open>The orchestrator, case by case\<close>

lemma is_valid_file_path_True:
  "path_is_file E p = Inr True \<Longrightarrow> os_access E p = Inr True \<Longrightarrow>
   is_valid_file_path E p = (Inr True, [Call (PathIsFile p), Call (OsAccess p)])"
  by (simp add: is_valid_file_path_def comp_defs)

lemma main_valid_paths:
  "path_is_file E fp = Inr True \<Longrightarrow> os_access E fp = Inr True \<Longrightarrow>
   path_is_file E sp = Inr True \<Longrightarrow> os_access E sp = Inr True \<Longrightarrow>
   main E fp sp ft =
     (fst (main_try E fp sp ft),
      [Call (PathIsFile fp), Call (OsAccess fp), Call (PathIsFile sp), Call (OsAccess sp)]
        @ snd (main_try E fp sp ft))"
  by (cases "main_try E fp sp ft") (simp add: main_def is_valid_file_path_True and_then_def)

lemma main_try_data_raises:
  "fst (load_data E fp ft) = Inl e \<Longrightarrow>
   main_try E fp sp ft =
     (if isinstance e Exception
      then (Inr (), snd (load_data E fp ft) @ [Print (''An error occurred: '' @ str e)])
      else (Inl e, snd (load_data E fp ft)))"
  by (cases "load_data E fp ft") (simp add: main_try_def comp_defs scope_evals)

lemma main_try_schema_raises:
  "fst (load_data E fp ft) = Inr d \<Longrightarrow> fst (load_schema E sp ft) = Inl e \<Longrightarrow>
   main_try E fp sp ft =
     (if isinstance e Exception
      then (Inr (), snd (load_data E fp ft) @ snd (load_schema E sp ft)
                      @ [Print (''An error occurred: '' @ str e)])
      else (Inl e, snd (load_data E fp ft) @ snd (load_schema E sp ft)))"
  by (cases "load_data E fp ft"; cases "load_schema E sp ft")
     (simp add: main_try_def comp_defs scope_evals)

lemma main_try_null:
  "fst (load_data E fp ft) = Inr d \<Longrightarrow> fst (load_schema E sp ft) = Inr s \<Longrightarrow>
   d = PyNone \<or> s = PyNone \<Longrightarrow>
   main_try E fp sp ft =
     (Inr (), snd (load_data E fp ft) @ snd (load_schema E sp ft)
                @ [Print ''Failed to load data or schema.''])"
  by (cases "load_data E fp ft"; cases "load_schema E sp ft")
     (auto simp add: main_try_def comp_defs scope_evals)

section \<open>A missing required property is a violation\<close>






section \<open>Claims about the validator\<close>

text \<open>
  C1, as stated, fails: the value \<^verbatim>\<open>validate_data\<close> returns for a schema that the
  library rejects (\<^verbatim>\<open>SchemaError\<close>) is the value it returns for a well-formed document
  that does not conform (\<^verbatim>\<open>ValidationError\<close>): \<^verbatim>\<open>False\<close> in both runs, so the caller
  cannot tell the two apart.
\<close>

theorem schema_error_same_return_counterexample:
  "jsonschema_validate world john bad_schema =
     Inl (Exn SchemaError ''nonexistent-type is not valid under any of the given schemas'')
   \<and> jsonschema_validate world john_no_age person_schema =
     Inl (Exn ValidationError ''age is a required property'')
   \<and> result (validate_data world john bad_schema ''json'') = Inr False
   \<and> result (validate_data world john_no_age person_schema ''json'') = Inr False"
  by (simp add: result_def validate_json_yaml isinstance_Exn world_def world_validate_def
      john_def john_no_age_def bad_schema_def person_schema_def)

text \<open>
  C1, amended: for \<^verbatim>\<open>json\<close> and \<^verbatim>\<open>yaml\<close>, when the library rejects the schema with
  \<^verbatim>\<open>SchemaError\<close>, \<^verbatim>\<open>validate_data\<close> does not raise, returns \<^verbatim>\<open>False\<close> and logs the
  one line \<^verbatim>\<open>Schema error: <message>\<close>; no line \<^verbatim>\<open>Validation error: ...\<close> is logged.
  The failure class shows in the log only.
\<close>

theorem schema_error_logged_not_returned:
  assumes "ft = ''json'' \<or> ft = ''yaml''"
    and "jsonschema_validate E d s = Inl e"
    and "cls e = SchemaError"
  shows "validate_data E d s ft =
           (Inr False, [Call (JsonschemaValidate d s), Log ERROR (''Schema error: '' @ str e)])
         \<and> Log ERROR (''Validation error: '' @ m) \<notin> set (events (validate_data E d s ft))"
  using assms by (auto simp add: validate_json_yaml isinstance_def events_def)

theorem schema_error_logged_not_returned_witness:
  "(''json'' = ''json'' \<or> ''json'' = ''yaml'')
   \<and> jsonschema_validate world john bad_schema =
         Inl (Exn SchemaError ''nonexistent-type is not valid under any of the given schemas'')
   \<and> validate_data world john bad_schema ''json'' =
         (Inr False,
          [Call (JsonschemaValidate john bad_schema),
           Log ERROR ''Schema error: nonexistent-type is not valid under any of the given schemas''])"
proof -
  have h: "jsonschema_validate world john bad_schema =
      Inl (Exn SchemaError ''nonexistent-type is not valid under any of the given schemas'')"
    by (simp add: world_def world_validate_def)
  show ?thesis
    using h schema_error_logged_not_returned [of "''json''" world john bad_schema
        "Exn SchemaError ''nonexistent-type is not valid under any of the given schemas''"]
    by simp
qed

text \<open>
  C2, as stated, fails on two counts. The returned value carries neither the variant nor
  the message: two unanticipated faults with different messages, and a nonconforming
  document, all give the caller \<^verbatim>\<open>False\<close>. And the outer \<^verbatim>\<open>except Exception\<close> does not
  catch what derives from \<^verbatim>\<open>BaseException\<close> only: an interrupt during the library call
  leaves \<^verbatim>\<open>validate_data\<close> as an exception.
\<close>

theorem unexpected_fault_counterexample:
  "result (validate_data (world_unexpected ''unhashable type'') john person_schema ''json'')
     = Inr False
   \<and> result (validate_data (world_unexpected ''maximum recursion depth exceeded'') john
        person_schema ''json'') = Inr False
   \<and> result (validate_data world john_no_age person_schema ''json'') = Inr False
   \<and> result (validate_data world_interrupted john person_schema ''json'')
     = Inl (Exn KeyboardInterrupt [])"
  by (simp add: result_def validate_json_yaml isinstance_Exn world_unexpected_def
      world_interrupted_def world_def world_validate_def
      john_def john_no_age_def bad_schema_def person_schema_def)

text \<open>
  C2, amended: for every document, schema and format, provided that a fault of the
  JSON Schema library (if any) is an instance of \<^verbatim>\<open>Exception\<close>, \<^verbatim>\<open>validate_data\<close> raises
  nothing and returns \<^verbatim>\<open>True\<close> or \<^verbatim>\<open>False\<close>; a fault that is none of
  \<^verbatim>\<open>ValidationError\<close>, \<^verbatim>\<open>SchemaError\<close>, \<^verbatim>\<open>ValueError\<close> gives \<^verbatim>\<open>False\<close> and the log record
  \<^verbatim>\<open>An unexpected error occurred: <message>\<close>. The message is in the log, not in the
  returned value.
\<close>

theorem validate_data_returns_bool:
  assumes "\<And>x. jsonschema_validate E d s = Inl x \<Longrightarrow> isinstance x Exception"
  shows "(result (validate_data E d s ft) = Inr True \<or> result (validate_data E d s ft) = Inr False)
         \<and> ((ft = ''json'' \<or> ft = ''yaml'') \<and> jsonschema_validate E d s = Inl e
              \<and> \<not> isinstance e ValidationError \<and> \<not> isinstance e SchemaError
              \<and> \<not> isinstance e ValueError
            \<longrightarrow> validate_data E d s ft =
                  (Inr False,
                   [Call (JsonschemaValidate d s),
                    Log EXCEPTION (''An unexpected error occurred: '' @ str e)]))"
proof -
  consider (structured) "ft = ''json'' \<or> ft = ''yaml''"
    | (xml) "ft = ''xml''"
    | (other) "ft \<noteq> ''json''" "ft \<noteq> ''yaml''" "ft \<noteq> ''xml''"
    by blast
  then show ?thesis
  proof cases
    case structured
    show ?thesis
    proof (cases "jsonschema_validate E d s")
      case (Inl x)
      with assms have "isinstance x Exception" by blast
      with Inl structured show ?thesis
        by (auto simp add: result_def validate_json_yaml)
    next
      case (Inr u)
      with structured show ?thesis
        by (simp add: result_def validate_json_yaml)
    qed
  next
    case xml
    show ?thesis
    proof (cases "fst (xml_body E d s)")
      case (Inl x)
      with xml show ?thesis
        by (simp add: result_def validate_xml_raises)
    next
      case (Inr b)
      then have "b" by (rule xml_body_returns_True)
      with Inr xml show ?thesis
        by (simp add: result_def validate_xml_returns)
    qed
  next
    case other
    then show ?thesis
      by (simp add: result_def validate_unsupported)
  qed
qed

theorem validate_data_returns_bool_witness:
  "jsonschema_validate (world_unexpected ''unhashable type'') john person_schema
     = Inl (Exn TypeError ''unhashable type'')
   \<and> isinstance (Exn TypeError ''unhashable type'') Exception
   \<and> validate_data (world_unexpected ''unhashable type'') john person_schema ''json'' =
       (Inr False,
        [Call (JsonschemaValidate john person_schema),
         Log EXCEPTION ''An unexpected error occurred: unhashable type''])"
proof -
  have h: "\<And>x. jsonschema_validate (world_unexpected ''unhashable type'') john person_schema
      = Inl x \<Longrightarrow> isinstance x Exception"
    by (auto simp add: world_unexpected_def isinstance_def)
  have v: "jsonschema_validate (world_unexpected ''unhashable type'') john person_schema
      = Inl (Exn TypeError ''unhashable type'')"
    by (simp add: world_unexpected_def)
  show ?thesis
    using v validate_data_returns_bool [of "world_unexpected ''unhashable type''" john
        person_schema "''json''" "Exn TypeError ''unhashable type''", OF h]
    by (simp add: isinstance_Exn)
qed

text \<open>
  C3, as stated, fails. A document that does not conform to its XSD (the library raises
  \<^verbatim>\<open>DocumentInvalid\<close> with its diagnostic) and a schema file that is not XML (the library
  raises \<^verbatim>\<open>XMLSyntaxError\<close>) end the same way: \<^verbatim>\<open>False\<close> is returned and the only log
  record is about the name \<^verbatim>\<open>lxml\<close>; the library's diagnostic is attached nowhere.
\<close>

theorem xml_failures_alike_counterexample:
  "validate_data world (PyElement abc_root) (PyStr ''schema.xsd'') ''xml'' =
     (Inr False,
      [Call ImportLxmlEtree,
       Call (LxmlParse (PyStr ''schema.xsd'')),
       Call (LxmlXMLSchema (PyObject ''lxml:xsd'')),
       Call (ETToString (PyElement abc_root)),
       Call (LxmlFromString (PyObject ''bytes:abc'')),
       Call (AssertValid (PyObject ''XMLSchema'') (PyObject ''lxml:abc'')),
       Log EXCEPTION ''An unexpected error occurred: name 'lxml' is not defined''])
   \<and> validate_data world (PyElement item_root) (PyStr ''garbled.xsd'') ''xml'' =
     (Inr False,
      [Call ImportLxmlEtree,
       Call (LxmlParse (PyStr ''garbled.xsd'')),
       Log EXCEPTION ''An unexpected error occurred: name 'lxml' is not defined''])"
proof -
  have a: "xml_body world (PyElement abc_root) (PyStr ''schema.xsd'') =
     (Inl (Exn DocumentInvalid
             ''Element item: abc is not a valid value of the atomic type xs:integer.''),
      [Call ImportLxmlEtree,
       Call (LxmlParse (PyStr ''schema.xsd'')),
       Call (LxmlXMLSchema (PyObject ''lxml:xsd'')),
       Call (ETToString (PyElement abc_root)),
       Call (LxmlFromString (PyObject ''bytes:abc'')),
       Call (AssertValid (PyObject ''XMLSchema'') (PyObject ''lxml:abc''))])"
    by (simp add: xml_body_def comp_defs world_def world_assertValid_def abc_root_def
        item_root_def)
  have b: "xml_body world (PyElement item_root) (PyStr ''garbled.xsd'') =
     (Inl (Exn XMLSyntaxError ''Document is empty, line 1, column 1''),
      [Call ImportLxmlEtree, Call (LxmlParse (PyStr ''garbled.xsd''))])"
    by (simp add: xml_body_def comp_defs world_def)
  from a have "validate_data world (PyElement abc_root) (PyStr ''schema.xsd'') ''xml'' =
     (Inr False, snd (xml_body world (PyElement abc_root) (PyStr ''schema.xsd'')) @
        [Log EXCEPTION ''An unexpected error occurred: name 'lxml' is not defined''])"
    by (intro validate_xml_raises) simp
  moreover from b have
    "validate_data world (PyElement item_root) (PyStr ''garbled.xsd'') ''xml'' =
     (Inr False, snd (xml_body world (PyElement item_root) (PyStr ''garbled.xsd'')) @
        [Log EXCEPTION ''An unexpected error occurred: name 'lxml' is not defined''])"
    by (intro validate_xml_raises) simp
  ultimately show ?thesis
    by (simp add: a b)
qed

text \<open>
  C3, amended: in every XML validation run the steps are taken in this order: import
  lxml, parse the XSD at the schema path and compile it, then serialise the element
  tree, parse the text again with lxml and assert conformance. The run returns
  \<^verbatim>\<open>True\<close> exactly when every step succeeds. When a step raises, no later step is
  run and \<^verbatim>\<open>False\<close> is returned, whichever step it was and whatever it raised.
\<close>

theorem xml_steps_in_order:
  "(result (validate_data E d s ''xml''), calls (validate_data E d s ''xml'')) =
     (case import_lxml_etree E of
        Inl e \<Rightarrow> (Inr False, [Call ImportLxmlEtree])
      | Inr u \<Rightarrow>
     (case lxml_parse E s of
        Inl e \<Rightarrow> (Inr False, [Call ImportLxmlEtree, Call (LxmlParse s)])
      | Inr xmlschema_doc \<Rightarrow>
     (case lxml_XMLSchema E xmlschema_doc of
        Inl e \<Rightarrow>
          (Inr False,
           [Call ImportLxmlEtree, Call (LxmlParse s), Call (LxmlXMLSchema xmlschema_doc)])
      | Inr xmlschema \<Rightarrow>
     (case ET_tostring E d of
        Inl e \<Rightarrow>
          (Inr False,
           [Call ImportLxmlEtree, Call (LxmlParse s), Call (LxmlXMLSchema xmlschema_doc),
            Call (ETToString d)])
      | Inr xml_string \<Rightarrow>
     (case lxml_fromstring E xml_string of
        Inl e \<Rightarrow>
          (Inr False,
           [Call ImportLxmlEtree, Call (LxmlParse s), Call (LxmlXMLSchema xmlschema_doc),
            Call (ETToString d), Call (LxmlFromString xml_string)])
      | Inr xml_doc \<Rightarrow>
     (case assertValid E xmlschema xml_doc of
        Inl e \<Rightarrow>
          (Inr False,
           [Call ImportLxmlEtree, Call (LxmlParse s), Call (LxmlXMLSchema xmlschema_doc),
            Call (ETToString d), Call (LxmlFromString xml_string),
            Call (AssertValid xmlschema xml_doc)])
      | Inr u' \<Rightarrow>
          (Inr True,
           [Call ImportLxmlEtree, Call (LxmlParse s), Call (LxmlXMLSchema xmlschema_doc),
            Call (ETToString d), Call (LxmlFromString xml_string),
            Call (AssertValid xmlschema xml_doc)])))))))"
proof (cases "fst (xml_body E d s)")
  case (Inl x)
  then have "validate_data E d s ''xml'' =
     (Inr False, snd (xml_body E d s) @
        [Log EXCEPTION ''An unexpected error occurred: name 'lxml' is not defined''])"
    by (rule validate_xml_raises)
  with Inl show ?thesis
    by (auto simp add: result_def calls_def events_def xml_body_def comp_defs
        split: sum.splits)
next
  case (Inr b)
  then have "validate_data E d s ''xml'' = xml_body E d s"
    by (rule validate_xml_returns)
  with Inr show ?thesis
    by (auto simp add: result_def calls_def events_def xml_body_def comp_defs
        split: sum.splits)
qed

theorem xml_steps_in_order_witness:
  "(result (validate_data world (PyElement item_root) (PyStr ''schema.xsd'') ''xml''),
    calls (validate_data world (PyElement item_root) (PyStr ''schema.xsd'') ''xml'')) =
     (Inr True,
      [Call ImportLxmlEtree,
       Call (LxmlParse (PyStr ''schema.xsd'')),
       Call (LxmlXMLSchema (PyObject ''lxml:xsd'')),
       Call (ETToString (PyElement item_root)),
       Call (LxmlFromString (PyObject ''bytes:1'')),
       Call (AssertValid (PyObject ''XMLSchema'') (PyObject ''lxml:1''))])"
  using xml_steps_in_order [of world "PyElement item_root" "PyStr ''schema.xsd''"]
  by (simp add: world_def world_assertValid_def item_root_def)




text \<open>
  C6: \<^verbatim>\<open>validate_data\<close> does the same for \<^verbatim>\<open>json\<close> and for \<^verbatim>\<open>yaml\<close>: the same
  library call on the same document and schema, the same handlers, hence the same
  returned value and the same events.
\<close>

theorem json_yaml_same_validation:
  "validate_data E d s ''json'' = validate_data E d s ''yaml''"
  by (simp add: validate_json_yaml)

theorem json_yaml_same_validation_witness:
  "validate_data world john person_schema ''json'' = (Inr True, [Call (JsonschemaValidate john person_schema)])
   \<and> validate_data world john person_schema ''yaml'' = (Inr True, [Call (JsonschemaValidate john person_schema)])"
proof -
  have "validate_data world john person_schema ''json'' =
      (Inr True, [Call (JsonschemaValidate john person_schema)])"
    by (simp add: validate_json_yaml world_def world_validate_def john_def john_no_age_def
        person_schema_def bad_schema_def)
  with json_yaml_same_validation [of world john person_schema] show ?thesis
    by simp
qed

text \<open>
  C9: in the XML branch no inner handler can run. The import binds \<^verbatim>\<open>lxml_ET\<close> only,
  so the name \<^verbatim>\<open>lxml\<close> is bound nowhere and the expression of the first inner clause
  raises \<^verbatim>\<open>NameError\<close>. Whatever the inner block raised, the inner \<^verbatim>\<open>try\<close> statement is
  left with that \<^verbatim>\<open>NameError\<close> and without a log record of its own; the outer
  \<^verbatim>\<open>except Exception\<close> clause turns it into \<^verbatim>\<open>False\<close>.
\<close>

theorem xml_inner_handlers_never_run:
  assumes "result (xml_body E d s) = Inl e"
  shows "map_of (function_scope (xml_locals E)) ''lxml'' = None
         \<and> eval_expr (function_scope (xml_locals E)) (Dotted ''lxml'' [''etree'', ''XMLSchemaError''])
             = Inl (Exn NameError ''name 'lxml' is not defined'')
         \<and> xml_try E d s =
             (Inl (Exn NameError ''name 'lxml' is not defined''), events (xml_body E d s))
         \<and> validate_data E d s ''xml'' =
             (Inr False,
              events (xml_body E d s) @
                [Log EXCEPTION ''An unexpected error occurred: name 'lxml' is not defined''])"
  using assms
  by (simp add: result_def events_def scope_lxml_unbound eval_lxml xml_try_raises
      validate_xml_raises)

theorem xml_inner_handlers_never_run_witness:
  "result (xml_body world (PyElement abc_root) (PyStr ''schema.xsd'')) =
     Inl (Exn DocumentInvalid
            ''Element item: abc is not a valid value of the atomic type xs:integer.'')
   \<and> result (xml_try world (PyElement abc_root) (PyStr ''schema.xsd'')) =
       Inl (Exn NameError ''name 'lxml' is not defined'')
   \<and> result (validate_data world (PyElement abc_root) (PyStr ''schema.xsd'') ''xml'')
       = Inr False
   \<and> logged (validate_data world (PyElement abc_root) (PyStr ''schema.xsd'') ''xml'')
       = [Log EXCEPTION ''An unexpected error occurred: name 'lxml' is not defined'']"
proof -
  have a: "xml_body world (PyElement abc_root) (PyStr ''schema.xsd'') =
     (Inl (Exn DocumentInvalid
             ''Element item: abc is not a valid value of the atomic type xs:integer.''),
      [Call ImportLxmlEtree,
       Call (LxmlParse (PyStr ''schema.xsd'')),
       Call (LxmlXMLSchema (PyObject ''lxml:xsd'')),
       Call (ETToString (PyElement abc_root)),
       Call (LxmlFromString (PyObject ''bytes:abc'')),
       Call (AssertValid (PyObject ''XMLSchema'') (PyObject ''lxml:abc''))])"
    by (simp add: xml_body_def comp_defs world_def world_assertValid_def abc_root_def
        item_root_def)
  then have h: "result (xml_body world (PyElement abc_root) (PyStr ''schema.xsd'')) =
     Inl (Exn DocumentInvalid
            ''Element item: abc is not a valid value of the atomic type xs:integer.'')"
    by (simp add: result_def)
  show ?thesis
    using h xml_inner_handlers_never_run [OF h]
    by (simp add: result_def logged_def events_def a)
qed

section \<open>Claims about the loaders and the orchestrator\<close>

text \<open>
  C4: for a format other than \<^verbatim>\<open>json\<close>, \<^verbatim>\<open>yaml\<close> and \<^verbatim>\<open>xml\<close>, the two loaders raise
  \<^verbatim>\<open>ValueError\<close> (unsupported type) and \<^verbatim>\<open>validate_data\<close> returns \<^verbatim>\<open>False\<close> without
  raising; none of the three calls a parser. The loaders open the file before they look
  at the format, so the statement is for a file that can be opened, as the
  orchestrator has checked.
\<close>

theorem unsupported_format_no_parse:
  assumes "ft \<noteq> ''json''" and "ft \<noteq> ''yaml''" and "ft \<noteq> ''xml''"
    and "open_file E p = Inr f"
  shows "load_data E p ft =
           (Inl (Exn ValueError ''Unsupported file type.''),
            [Call (Open p), Log ERROR ''Error loading data: Unsupported file type.''])
         \<and> load_schema E p ft =
           (Inl (Exn ValueError ''Unsupported schema file type.''),
            [Call (Open p), Log ERROR ''Error loading schema: Unsupported schema file type.''])
         \<and> validate_data E d s ft =
           (Inr False, [Log ERROR ''Error during validation: Unsupported file type.''])
         \<and> parse_calls (load_data E p ft) = []
         \<and> parse_calls (load_schema E p ft) = []
         \<and> parse_calls (validate_data E d s ft) = []"
proof -
  have a: "load_data E p ft =
      (Inl (Exn ValueError ''Unsupported file type.''),
       [Call (Open p), Log ERROR ''Error loading data: Unsupported file type.''])"
    using assms
    by (simp add: load_data_def comp_defs scope_evals isinstance_Exn)
  have b: "load_schema E p ft =
      (Inl (Exn ValueError ''Unsupported schema file type.''),
       [Call (Open p), Log ERROR ''Error loading schema: Unsupported schema file type.''])"
    using assms
    by (simp add: load_schema_def comp_defs scope_evals isinstance_Exn)
  have c: "validate_data E d s ft =
      (Inr False, [Log ERROR ''Error during validation: Unsupported file type.''])"
    using assms by (simp add: validate_unsupported)
  show ?thesis
    by (simp add: a b c parse_calls_def events_def)
qed

theorem unsupported_format_no_parse_witness:
  "''csv'' \<noteq> ''json'' \<and> ''csv'' \<noteq> ''yaml'' \<and> ''csv'' \<noteq> ''xml''
   \<and> open_file world ''data.json'' = Inr john_json
   \<and> load_data world ''data.json'' ''csv'' =
       (Inl (Exn ValueError ''Unsupported file type.''),
        [Call (Open ''data.json''), Log ERROR ''Error loading data: Unsupported file type.''])
   \<and> load_schema world ''data.json'' ''csv'' =
       (Inl (Exn ValueError ''Unsupported schema file type.''),
        [Call (Open ''data.json''),
         Log ERROR ''Error loading schema: Unsupported schema file type.''])
   \<and> validate_data world john person_schema ''csv'' =
       (Inr False, [Log ERROR ''Error during validation: Unsupported file type.''])"
proof -
  have o: "open_file world ''data.json'' = Inr john_json"
    by (simp add: world_def files_def)
  show ?thesis
    using o unsupported_format_no_parse [of "''csv''" world "''data.json''" john_json john
        person_schema]
    by simp
qed

text \<open>
  C8: for \<^verbatim>\<open>xml\<close>, \<^verbatim>\<open>load_schema\<close> opens the schema file, reads and parses nothing, and
  returns the path it was given, as a string. (The file is opened first: the statement
  is for a path that can be opened, as the orchestrator has checked.)
\<close>

theorem xml_schema_is_the_path:
  assumes "open_file E schema_path = Inr f"
  shows "load_schema E schema_path ''xml'' = (Inr (PyStr schema_path), [Call (Open schema_path)])
         \<and> parse_calls (load_schema E schema_path ''xml'') = []"
proof -
  have "load_schema E schema_path ''xml'' =
      (Inr (PyStr schema_path), [Call (Open schema_path)])"
    using assms by (simp add: load_schema_def comp_defs)
  then show ?thesis
    by (simp add: parse_calls_def events_def)
qed

theorem xml_schema_is_the_path_witness:
  "open_file world ''schema.xsd'' = Inr ''<xs:schema/>''
   \<and> load_schema world ''schema.xsd'' ''xml'' =
       (Inr (PyStr ''schema.xsd''), [Call (Open ''schema.xsd'')])"
proof -
  have o: "open_file world ''schema.xsd'' = Inr ''<xs:schema/>''"
    by (simp add: world_def files_def)
  show ?thesis
    using o xml_schema_is_the_path [OF o] by simp
qed

text \<open>
  C7: a loader hands on what the file system or the parser raised, unchanged: the
  result of \<^verbatim>\<open>load_data\<close> and of \<^verbatim>\<open>load_schema\<close> is the answer of \<^verbatim>\<open>open\<close> or of the
  parser (or the \<^verbatim>\<open>ValueError\<close> for an unsupported format). In \<^verbatim>\<open>main\<close>, once the paths
  have passed the checks, a fault of the data loader or of the schema loader that is
  an \<^verbatim>\<open>Exception\<close> ends the run: the one line printed is \<^verbatim>\<open>An error occurred: ...\<close>,
  no validation call is made, and after a fault of the data loader the schema is not
  loaded either.
\<close>

theorem loader_fault_ends_run:
  assumes "path_is_file E fp = Inr True" and "os_access E fp = Inr True"
    and "path_is_file E sp = Inr True" and "os_access E sp = Inr True"
    and "result (load_data E fp ft) = Inl e
         \<or> (result (load_data E fp ft) = Inr d \<and> result (load_schema E sp ft) = Inl e)"
    and "isinstance e Exception"
  shows "result (load_data E fp ft) =
           (case open_file E fp of
              Inl x \<Rightarrow> Inl x
            | Inr f \<Rightarrow>
                if ft = ''json'' then json_load E f
                else if ft = ''yaml'' then yaml_safe_load E f
                else if ft = ''xml'' then
                  (case ET_parse E f of Inl x \<Rightarrow> Inl x | Inr r \<Rightarrow> Inr (PyElement r))
                else Inl (Exn ValueError ''Unsupported file type.''))
         \<and> result (load_schema E sp ft) =
           (case open_file E sp of
              Inl x \<Rightarrow> Inl x
            | Inr f \<Rightarrow>
                if ft = ''json'' then json_load E f
                else if ft = ''yaml'' then yaml_safe_load E f
                else if ft = ''xml'' then Inr (PyStr sp)
                else Inl (Exn ValueError ''Unsupported schema file type.''))
         \<and> result (main E fp sp ft) = Inr ()
         \<and> printed (main E fp sp ft) = [Print (''An error occurred: '' @ str e)]
         \<and> validation_calls (main E fp sp ft) = []
         \<and> (case result (load_data E fp ft) of
              Inl x \<Rightarrow>
                events (main E fp sp ft) =
                  [Call (PathIsFile fp), Call (OsAccess fp), Call (PathIsFile sp),
                   Call (OsAccess sp)]
                  @ events (load_data E fp ft) @ [Print (''An error occurred: '' @ str e)]
            | Inr v \<Rightarrow>
                events (main E fp sp ft) =
                  [Call (PathIsFile fp), Call (OsAccess fp), Call (PathIsFile sp),
                   Call (OsAccess sp)]
                  @ events (load_data E fp ft) @ events (load_schema E sp ft)
                  @ [Print (''An error occurred: '' @ str e)])"
proof -
  note m = main_valid_paths [OF assms(1-4), of ft]
  have r1: "result (load_data E fp ft) =
           (case open_file E fp of
              Inl x \<Rightarrow> Inl x
            | Inr f \<Rightarrow>
                if ft = ''json'' then json_load E f
                else if ft = ''yaml'' then yaml_safe_load E f
                else if ft = ''xml'' then
                  (case ET_parse E f of Inl x \<Rightarrow> Inl x | Inr r \<Rightarrow> Inr (PyElement r))
                else Inl (Exn ValueError ''Unsupported file type.''))"
    unfolding result_def by (rule load_data_result)
  have r2: "result (load_schema E sp ft) =
           (case open_file E sp of
              Inl x \<Rightarrow> Inl x
            | Inr f \<Rightarrow>
                if ft = ''json'' then json_load E f
                else if ft = ''yaml'' then yaml_safe_load E f
                else if ft = ''xml'' then Inr (PyStr sp)
                else Inl (Exn ValueError ''Unsupported schema file type.''))"
    unfolding result_def by (rule load_schema_result)
  from assms(5) have rest:
    "result (main E fp sp ft) = Inr ()
     \<and> printed (main E fp sp ft) = [Print (''An error occurred: '' @ str e)]
     \<and> validation_calls (main E fp sp ft) = []
     \<and> (case result (load_data E fp ft) of
              Inl x \<Rightarrow>
                events (main E fp sp ft) =
                  [Call (PathIsFile fp), Call (OsAccess fp), Call (PathIsFile sp),
                   Call (OsAccess sp)]
                  @ events (load_data E fp ft) @ [Print (''An error occurred: '' @ str e)]
            | Inr v \<Rightarrow>
                events (main E fp sp ft) =
                  [Call (PathIsFile fp), Call (OsAccess fp), Call (PathIsFile sp),
                   Call (OsAccess sp)]
                  @ events (load_data E fp ft) @ events (load_schema E sp ft)
                  @ [Print (''An error occurred: '' @ str e)])"
  proof
    assume a: "result (load_data E fp ft) = Inl e"
    then have f: "fst (load_data E fp ft) = Inl e" by (simp add: result_def)
    have t: "main_try E fp sp ft =
        (Inr (), snd (load_data E fp ft) @ [Print (''An error occurred: '' @ str e)])"
      using main_try_data_raises [OF f, of sp] assms(6) by simp
    show ?thesis
      using a
      by (simp add: m t result_def printed_def validation_calls_def events_def
          load_data_no_validation load_data_no_print)
  next
    assume a: "result (load_data E fp ft) = Inr d \<and> result (load_schema E sp ft) = Inl e"
    then have f: "fst (load_data E fp ft) = Inr d" and g: "fst (load_schema E sp ft) = Inl e"
      by (simp_all add: result_def)
    have t: "main_try E fp sp ft =
        (Inr (), snd (load_data E fp ft) @ snd (load_schema E sp ft)
                   @ [Print (''An error occurred: '' @ str e)])"
      using main_try_schema_raises [OF f g] assms(6) by simp
    show ?thesis
      using a
      by (simp add: m t result_def printed_def validation_calls_def events_def
          load_data_no_validation load_data_no_print load_schema_no_validation
          load_schema_no_print)
  qed
  from r1 r2 rest show ?thesis by blast
qed

theorem loader_fault_ends_run_witness:
  "path_is_file world ''broken.json'' = Inr True \<and> os_access world ''broken.json'' = Inr True
   \<and> path_is_file world ''schema.json'' = Inr True \<and> os_access world ''schema.json'' = Inr True
   \<and> result (load_data world ''broken.json'' ''json'') =
       Inl (Exn JSONDecodeError ''Expecting value: line 1 column 9 (char 8)'')
   \<and> isinstance (Exn JSONDecodeError ''Expecting value: line 1 column 9 (char 8)'') Exception
   \<and> result (main world ''broken.json'' ''schema.json'' ''json'') = Inr ()
   \<and> printed (main world ''broken.json'' ''schema.json'' ''json'') =
       [Print ''An error occurred: Expecting value: line 1 column 9 (char 8)'']
   \<and> validation_calls (main world ''broken.json'' ''schema.json'' ''json'') = []
   \<and> events (main world ''broken.json'' ''schema.json'' ''json'') =
       [Call (PathIsFile ''broken.json''), Call (OsAccess ''broken.json''),
        Call (PathIsFile ''schema.json''), Call (OsAccess ''schema.json''),
        Call (Open ''broken.json''), Call (JsonLoad broken_json),
        Log ERROR ''Error loading data: Expecting value: line 1 column 9 (char 8)'',
        Print ''An error occurred: Expecting value: line 1 column 9 (char 8)'']"
proof -
  have p: "path_is_file world ''broken.json'' = Inr True"
    "os_access world ''broken.json'' = Inr True"
    "path_is_file world ''schema.json'' = Inr True"
    "os_access world ''schema.json'' = Inr True"
    by (simp_all add: world_def files_def)
  have l: "load_data world ''broken.json'' ''json'' =
      (Inl (Exn JSONDecodeError ''Expecting value: line 1 column 9 (char 8)''),
       [Call (Open ''broken.json''), Call (JsonLoad broken_json),
        Log ERROR ''Error loading data: Expecting value: line 1 column 9 (char 8)''])"
    by (simp add: load_data_def comp_defs scope_evals isinstance_Exn world_def files_def
        world_json_load_def broken_json_def john_json_def schema_json_def dq_def)
  then have r: "result (load_data world ''broken.json'' ''json'') =
      Inl (Exn JSONDecodeError ''Expecting value: line 1 column 9 (char 8)'')
      \<or> (result (load_data world ''broken.json'' ''json'') = Inr PyNone
           \<and> result (load_schema world ''schema.json'' ''json'') =
               Inl (Exn JSONDecodeError ''Expecting value: line 1 column 9 (char 8)''))"
    by (simp add: result_def)
  have i: "isinstance (Exn JSONDecodeError ''Expecting value: line 1 column 9 (char 8)'')
      Exception"
    by (simp add: isinstance_Exn)
  show ?thesis
    using p i loader_fault_ends_run [OF p r i]
    by (simp add: l result_def events_def)
qed

text \<open>
  C10: when the parser answers \<^verbatim>\<open>None\<close>, the loader returns \<^verbatim>\<open>None\<close>: nothing is raised
  and nothing is logged. In \<^verbatim>\<open>main\<close>, once the paths have passed the checks, a data
  object or a schema that is \<^verbatim>\<open>None\<close> never reaches the validator: no validation call
  is made, and when both loaders return, the one line printed is
  \<^verbatim>\<open>Failed to load data or schema.\<close>
\<close>

theorem null_document_not_validated:
  assumes "path_is_file E fp = Inr True" and "os_access E fp = Inr True"
    and "path_is_file E sp = Inr True" and "os_access E sp = Inr True"
    and "result (load_data E fp ft) = Inr PyNone
         \<or> (result (load_data E fp ft) = Inr d \<and> result (load_schema E sp ft) = Inr PyNone)"
  shows "validation_calls (main E fp sp ft) = []
         \<and> (\<forall>s. result (load_schema E sp ft) = Inr s \<longrightarrow>
                result (main E fp sp ft) = Inr ()
                \<and> printed (main E fp sp ft) = [Print ''Failed to load data or schema.'']
                \<and> events (main E fp sp ft) =
                    [Call (PathIsFile fp), Call (OsAccess fp), Call (PathIsFile sp),
                     Call (OsAccess sp)]
                    @ events (load_data E fp ft) @ events (load_schema E sp ft)
                    @ [Print ''Failed to load data or schema.''])
         \<and> (\<forall>p f. open_file E p = Inr f \<and> json_load E f = Inr PyNone \<longrightarrow>
                load_data E p ''json'' = (Inr PyNone, [Call (Open p), Call (JsonLoad f)])
                \<and> load_schema E p ''json'' = (Inr PyNone, [Call (Open p), Call (JsonLoad f)]))
         \<and> (\<forall>p f. open_file E p = Inr f \<and> yaml_safe_load E f = Inr PyNone \<longrightarrow>
                load_data E p ''yaml'' = (Inr PyNone, [Call (Open p), Call (YamlSafeLoad f)])
                \<and> load_schema E p ''yaml'' =
                    (Inr PyNone, [Call (Open p), Call (YamlSafeLoad f)]))"
proof -
  note m = main_valid_paths [OF assms(1-4), of ft]
  obtain d' where d': "fst (load_data E fp ft) = Inr d'"
    using assms(5) by (auto simp add: result_def)
  have json: "\<forall>p f. open_file E p = Inr f \<and> json_load E f = Inr PyNone \<longrightarrow>
                load_data E p ''json'' = (Inr PyNone, [Call (Open p), Call (JsonLoad f)])
                \<and> load_schema E p ''json'' = (Inr PyNone, [Call (Open p), Call (JsonLoad f)])"
    by (simp add: load_data_def load_schema_def comp_defs)
  have yaml: "\<forall>p f. open_file E p = Inr f \<and> yaml_safe_load E f = Inr PyNone \<longrightarrow>
                load_data E p ''yaml'' = (Inr PyNone, [Call (Open p), Call (YamlSafeLoad f)])
                \<and> load_schema E p ''yaml'' =
                    (Inr PyNone, [Call (Open p), Call (YamlSafeLoad f)])"
    by (simp add: load_data_def load_schema_def comp_defs)
  have main_part: "validation_calls (main E fp sp ft) = []
         \<and> (\<forall>s. result (load_schema E sp ft) = Inr s \<longrightarrow>
                result (main E fp sp ft) = Inr ()
                \<and> printed (main E fp sp ft) = [Print ''Failed to load data or schema.'']
                \<and> events (main E fp sp ft) =
                    [Call (PathIsFile fp), Call (OsAccess fp), Call (PathIsFile sp),
                     Call (OsAccess sp)]
                    @ events (load_data E fp ft) @ events (load_schema E sp ft)
                    @ [Print ''Failed to load data or schema.''])"
  proof (cases "fst (load_schema E sp ft)")
    case (Inl x)
    have t: "main_try E fp sp ft =
       (if isinstance x Exception
        then (Inr (), snd (load_data E fp ft) @ snd (load_schema E sp ft)
                        @ [Print (''An error occurred: '' @ str x)])
        else (Inl x, snd (load_data E fp ft) @ snd (load_schema E sp ft)))"
      by (rule main_try_schema_raises [OF d' Inl])
    have "validation_calls (main E fp sp ft) = []"
      by (simp add: m t validation_calls_def events_def load_data_no_validation
          load_schema_no_validation)
    with Inl show ?thesis
      by (simp add: result_def)
  next
    case (Inr s)
    have n: "d' = PyNone \<or> s = PyNone"
      using assms(5) d' Inr by (auto simp add: result_def)
    have t: "main_try E fp sp ft =
       (Inr (), snd (load_data E fp ft) @ snd (load_schema E sp ft)
                  @ [Print ''Failed to load data or schema.''])"
      by (rule main_try_null [OF d' Inr n])
    have "validation_calls (main E fp sp ft) = []
        \<and> result (main E fp sp ft) = Inr ()
        \<and> printed (main E fp sp ft) = [Print ''Failed to load data or schema.'']
        \<and> events (main E fp sp ft) =
                    [Call (PathIsFile fp), Call (OsAccess fp), Call (PathIsFile sp),
                     Call (OsAccess sp)]
                    @ events (load_data E fp ft) @ events (load_schema E sp ft)
                    @ [Print ''Failed to load data or schema.'']"
      by (simp add: m t validation_calls_def printed_def result_def events_def
          load_data_no_validation load_schema_no_validation load_data_no_print
          load_schema_no_print)
    then show ?thesis
      by simp
  qed
  from main_part json yaml show ?thesis by blast
qed

theorem null_document_not_validated_witness:
  "path_is_file world ''null.json'' = Inr True \<and> os_access world ''null.json'' = Inr True
   \<and> path_is_file world ''schema.json'' = Inr True \<and> os_access world ''schema.json'' = Inr True
   \<and> load_data world ''null.json'' ''json'' =
       (Inr PyNone, [Call (Open ''null.json''), Call (JsonLoad ''null'')])
   \<and> validation_calls (main world ''null.json'' ''schema.json'' ''json'') = []
   \<and> main world ''null.json'' ''schema.json'' ''json'' =
       (Inr (),
        [Call (PathIsFile ''null.json''), Call (OsAccess ''null.json''),
         Call (PathIsFile ''schema.json''), Call (OsAccess ''schema.json''),
         Call (Open ''null.json''), Call (JsonLoad ''null''),
         Call (Open ''schema.json''), Call (JsonLoad schema_json),
         Print ''Failed to load data or schema.''])"
proof -
  have p: "path_is_file world ''null.json'' = Inr True"
    "os_access world ''null.json'' = Inr True"
    "path_is_file world ''schema.json'' = Inr True"
    "os_access world ''schema.json'' = Inr True"
    by (simp_all add: world_def files_def)
  have l: "load_data world ''null.json'' ''json'' =
      (Inr PyNone, [Call (Open ''null.json''), Call (JsonLoad ''null'')])"
    by (simp add: load_data_def comp_defs world_def files_def world_json_load_def)
  have s: "load_schema world ''schema.json'' ''json'' =
      (Inr person_schema, [Call (Open ''schema.json''), Call (JsonLoad schema_json)])"
    by (simp add: load_schema_def comp_defs world_def files_def world_json_load_def
        schema_json_def john_json_def dq_def)
  have r: "result (load_data world ''null.json'' ''json'') = Inr PyNone
      \<or> (result (load_data world ''null.json'' ''json'') = Inr PyNone
           \<and> result (load_schema world ''schema.json'' ''json'') = Inr PyNone)"
    by (simp add: l result_def)
  show ?thesis
    using p null_document_not_validated [OF p r]
    by (cases "main world ''null.json'' ''schema.json'' ''json''")
       (simp add: l s result_def events_def)
qed

end
